theory Spec2Isabelle
  imports Complex_Main
begin

section \<open>JavaScript values and effects shared by the pages\<close>

text \<open>
  A JavaScript \<^verbatim>\<open>number\<close> as far as the pages look at it: the only test the code makes
  is \<^verbatim>\<open>isNaN\<close>, which is true of \<^verbatim>\<open>NaN\<close> alone.
\<close>

datatype js_number = NaN | PosInfinity | NegInfinity | Num real

fun isNaN :: "js_number \<Rightarrow> bool" where
  "isNaN NaN = True"
| "isNaN PosInfinity = False"
| "isNaN NegInfinity = False"
| "isNaN (Num x) = False"

text \<open>
  Truthiness, as \<^verbatim>\<open>if (x)\<close>, \<^verbatim>\<open>!x\<close>, \<^verbatim>\<open>x ? a : b\<close> and \<^verbatim>\<open>x || y\<close> read it: a string is
  falsy exactly when it is empty. \<^verbatim>\<open>null\<close> and \<^verbatim>\<open>undefined\<close> (here \<open>None\<close>) are falsy too:
  each test of an optional string is written as a case on \<open>None\<close> and \<open>Some\<close>.
\<close>

definition truthy :: "string \<Rightarrow> bool" where
  "truthy s = (s \<noteq> [])"

text \<open>
  An awaited promise either rejects (the \<^verbatim>\<open>catch\<close> branch runs) or is fulfilled with a
  value. The outcome of every backend call is an input of the handler that awaits it.
\<close>

datatype 'a promise = Rejected | Fulfilled 'a

text \<open>
  What \<^verbatim>\<open>fetch\<close> resolves with: \<^verbatim>\<open>res.ok\<close> and the promise \<^verbatim>\<open>res.json()\<close>, which rejects
  when the body is not JSON. \<^verbatim>\<open>fetch\<close> itself rejects only when no response arrives: an
  HTTP error status is a fulfilled promise whose \<^verbatim>\<open>ok\<close> is false. (\<^verbatim>\<open>axios\<close>, which the
  course page uses, rejects on every status outside 2xx.)
\<close>

record 'a response =
  ok :: bool
  json :: "'a promise"

text \<open>The body the announcement endpoints answer a mutation with: \<^verbatim>\<open>data.error\<close>.\<close>

record mutation_data =
  error :: "string option"

datatype http_method = GET | POST | PUT | DELETE

text \<open>The object \<^verbatim>\<open>courseData\<close> that \<^verbatim>\<open>handleSubmit\<close> of the course page sends.\<close>

record courseData =
  data_courseCode :: string
  data_courseTitle :: string
  data_creditUnits :: js_number
  data_lecturer :: string
  data_level :: string
  data_semester :: string
  data_department :: string

datatype payload =
  No_payload
| Course_payload courseData
| Announcement_payload string string

record request =
  req_method :: http_method
  req_url :: string
  req_headers :: "(string \<times> string) list"
  req_body :: payload

text \<open>
  Everything a handler does besides updating the component's state, in the order it does
  it: backend calls, toasts, \<^verbatim>\<open>alert\<close> boxes, \<^verbatim>\<open>confirm\<close> prompts, console output,
  \<^verbatim>\<open>location.reload()\<close> and the router's navigations. A handler's result is the state
  once every promise it awaits has settled.
\<close>

datatype effect =
  Http request
| Toast_error string
| Toast_success string
| Alert string
| Confirm string
| Console_error string
| Reload
| Router_replace string
| Router_push string

fun requests_of :: "effect list \<Rightarrow> request list" where
  "requests_of [] = []"
| "requests_of (Http r # es) = r # requests_of es"
| "requests_of (e # es) = requests_of es"

text \<open>What the user is shown: toasts and alert boxes. The console is not shown.\<close>

fun shown_to_user :: "effect list \<Rightarrow> effect list" where
  "shown_to_user [] = []"
| "shown_to_user (Toast_error m # es) = Toast_error m # shown_to_user es"
| "shown_to_user (Toast_success m # es) = Toast_success m # shown_to_user es"
| "shown_to_user (Alert m # es) = Alert m # shown_to_user es"
| "shown_to_user (e # es) = shown_to_user es"

text \<open>
  Calls started one after another without \<^verbatim>\<open>await\<close> send all their requests before any of
  them settles. \<open>requests_first\<close> orders the effects of such calls: the requests in the
  order the calls were started, then what the calls do once they settle. Among the settled
  calls the order is the network's; the model settles them in the order they were started.
\<close>

fun after_requests :: "effect list \<Rightarrow> effect list" where
  "after_requests [] = []"
| "after_requests (Http r # es) = after_requests es"
| "after_requests (e # es) = e # after_requests es"

definition requests_first :: "effect list \<Rightarrow> effect list" where
  "requests_first es = map Http (requests_of es) @ after_requests es"

section \<open>The course page (\<^verbatim>\<open>AdminCoursesPage\<close>)\<close>

text \<open>
  A reference field of a course is \<^verbatim>\<open>string | XPopulated\<close>: the bare identifier, or the
  expanded object. \<^verbatim>\<open>typeof x === 'object'\<close> is true of \<open>Populated\<close> and false of \<open>Raw_id\<close>.
\<close>

datatype 'p reference = Raw_id string | Populated 'p

record LecturerPopulated =
  lecturer_id :: string
  lecturer_fullName :: "string option"
  lecturer_email :: "string option"
  lecturer_name :: "string option"

record DepartmentPopulated =
  department_id :: string
  department_name :: string

record LevelPopulated =
  level_id :: string
  level_name :: string

record Course =
  course_id :: string
  course_courseCode :: string
  course_courseTitle :: string
  course_creditUnits :: js_number
  course_lecturer :: "LecturerPopulated reference"
  course_level :: "LevelPopulated reference"
  course_semester :: string
  course_department :: "DepartmentPopulated reference"

record Lecturer =
  lecturer_option_id :: string
  lecturer_option_name :: string

record Department =
  department_option_id :: string
  department_option_name :: string

text \<open>The component's state: one field for each \<^verbatim>\<open>useState\<close> of the page.\<close>

record AdminCoursesPage =
  courses :: "Course list"
  lecturers :: "Lecturer list"
  departments :: "Department list"
  isModalOpen :: bool
  loading :: bool
  courseCode :: string
  courseTitle :: string
  creditUnits :: js_number
  lecturer :: string
  level :: string
  semester :: string
  department :: string
  editId :: "string option"

definition AdminCoursesPage_init :: AdminCoursesPage where
  "AdminCoursesPage_init =
     \<lparr>courses = [], lecturers = [], departments = [], isModalOpen = False, loading = False,
      courseCode = [], courseTitle = [], creditUnits = Num 0, lecturer = [], level = [],
      semester = [], department = [], editId = None\<rparr>"

definition get_request :: "string \<Rightarrow> request" where
  "get_request u = \<lparr>req_method = GET, req_url = u, req_headers = [], req_body = No_payload\<rparr>"

definition fetchCourses ::
  "Course list promise \<Rightarrow> AdminCoursesPage \<Rightarrow> AdminCoursesPage \<times> effect list" where
  "fetchCourses res s =
     (case res of
        Fulfilled d \<Rightarrow>
          (s\<lparr>courses := d, loading := False\<rparr>,
           [Http (get_request ''https://forestryapi.onrender.com/courses'')])
      | Rejected \<Rightarrow>
          (s\<lparr>loading := False\<rparr>,
           [Http (get_request ''https://forestryapi.onrender.com/courses''),
            Toast_error ''Failed to fetch courses.'']))"

definition fetchLecturers ::
  "Lecturer list promise \<Rightarrow> AdminCoursesPage \<Rightarrow> AdminCoursesPage \<times> effect list" where
  "fetchLecturers res s =
     (case res of
        Fulfilled d \<Rightarrow>
          (s\<lparr>lecturers := d\<rparr>,
           [Http (get_request ''https://forestryapi.onrender.com/lecturers'')])
      | Rejected \<Rightarrow>
          (s,
           [Http (get_request ''https://forestryapi.onrender.com/lecturers''),
            Toast_error ''Failed to fetch lecturers.'']))"

definition fetchDepartments ::
  "Department list promise \<Rightarrow> AdminCoursesPage \<Rightarrow> AdminCoursesPage \<times> effect list" where
  "fetchDepartments res s =
     (case res of
        Fulfilled d \<Rightarrow>
          (s\<lparr>departments := d\<rparr>,
           [Http (get_request ''https://forestryapi.onrender.com/departments'')])
      | Rejected \<Rightarrow>
          (s,
           [Http (get_request ''https://forestryapi.onrender.com/departments''),
            Toast_error ''Failed to fetch departments.'']))"

definition resetForm :: "AdminCoursesPage \<Rightarrow> AdminCoursesPage" where
  "resetForm s =
     s\<lparr>editId := None, courseCode := [], courseTitle := [], creditUnits := Num 0,
       lecturer := [], level := [], semester := [], department := []\<rparr>"

definition openModal :: "Course option \<Rightarrow> AdminCoursesPage \<Rightarrow> AdminCoursesPage" where
  "openModal course s =
     (case course of
        Some c \<Rightarrow>
          s\<lparr>editId := Some (course_id c),
            courseCode := course_courseCode c,
            courseTitle := course_courseTitle c,
            creditUnits := course_creditUnits c,
            lecturer := (case course_lecturer c of Populated p \<Rightarrow> lecturer_id p | Raw_id i \<Rightarrow> i),
            level := (case course_level c of Populated p \<Rightarrow> level_id p | Raw_id i \<Rightarrow> i),
            semester := course_semester c,
            department :=
              (case course_department c of Populated p \<Rightarrow> department_id p | Raw_id i \<Rightarrow> i),
            isModalOpen := True\<rparr>
      | None \<Rightarrow> (resetForm s)\<lparr>isModalOpen := True\<rparr>)"

definition closeModal :: "AdminCoursesPage \<Rightarrow> AdminCoursesPage" where
  "closeModal s = resetForm (s\<lparr>isModalOpen := False\<rparr>)"



text \<open>
  \<^verbatim>\<open>handleSubmit\<close>. The two awaited outcomes are inputs: \<open>saved\<close> is the \<^verbatim>\<open>axios.put\<close> or
  \<^verbatim>\<open>axios.post\<close> call, \<open>refetched\<close> the \<^verbatim>\<open>axios.get\<close> of the \<^verbatim>\<open>fetchCourses()\<close> that
  follows a successful save. \<^verbatim>\<open>if (editId)\<close> is a truthiness test: \<^verbatim>\<open>null\<close> and the empty
  string both take the \<^verbatim>\<open>else\<close> branch. A request is recorded as the page passes it to
  the \<^verbatim>\<open>axios\<close> instance of \<^verbatim>\<open>lib/axios\<close>: the page passes no headers.
\<close>

definition handleSubmit ::
  "unit promise \<Rightarrow> Course list promise \<Rightarrow> AdminCoursesPage \<Rightarrow>
   AdminCoursesPage \<times> effect list" where
  "handleSubmit saved refetched s =
     (if \<not> truthy (courseCode s) \<or> \<not> truthy (courseTitle s) \<or> isNaN (creditUnits s)
      then (s, [Toast_error ''Please fill in all required fields.''])
      else
        let courseData =
              \<lparr>data_courseCode = courseCode s, data_courseTitle = courseTitle s,
               data_creditUnits = creditUnits s, data_lecturer = lecturer s,
               data_level = level s, data_semester = semester s,
               data_department = department s\<rparr>;
            create =
              ([Http \<lparr>req_method = POST,
                      req_url = ''https://forestryapi.onrender.com/courses'',
                      req_headers = [], req_body = Course_payload courseData\<rparr>],
               ''Course created.'');
            (call, success) =
              (case editId s of
                 None \<Rightarrow> create
               | Some i \<Rightarrow>
                   if truthy i
                   then ([Http \<lparr>req_method = PUT,
                                req_url = ''https://forestryapi.onrender.com/courses/'' @ i,
                                req_headers = [], req_body = Course_payload courseData\<rparr>],
                         ''Course updated.'')
                   else create)
        in case saved of
             Rejected \<Rightarrow> (s, call @ [Toast_error ''Failed to save course.''])
           | Fulfilled u \<Rightarrow>
               (case fetchCourses refetched s of
                  (s', es) \<Rightarrow> (closeModal s', call @ [Toast_success success] @ es)))"

text \<open>\<^verbatim>\<open>handleDelete\<close>; \<open>confirmed\<close> is what \<^verbatim>\<open>window.confirm\<close> returned.\<close>

definition handleDelete ::
  "string \<Rightarrow> bool \<Rightarrow> unit promise \<Rightarrow> Course list promise \<Rightarrow> AdminCoursesPage \<Rightarrow>
   AdminCoursesPage \<times> effect list" where
  "handleDelete i confirmed deleted refetched s =
     (if \<not> confirmed
      then (s, [Confirm ''Are you sure you want to delete this course?''])
      else
        let call =
              [Confirm ''Are you sure you want to delete this course?'',
               Http \<lparr>req_method = DELETE,
                     req_url = ''https://forestryapi.onrender.com/courses/'' @ i,
                     req_headers = [], req_body = No_payload\<rparr>]
        in case deleted of
             Rejected \<Rightarrow> (s, call @ [Toast_error ''Failed to delete course.''])
           | Fulfilled u \<Rightarrow>
               (case fetchCourses refetched s of
                  (s', es) \<Rightarrow> (s', call @ [Toast_success ''Course deleted.''] @ es)))"



section \<open>The admin dashboard (\<^verbatim>\<open>AdminDashboardPage\<close>) and the student dashboard\<close>

record Stats =
  totalUsers :: js_number
  totalDepartments :: js_number
  totalCourses :: js_number
  totalAnnouncements :: js_number

record Announcement =
  announcement_id :: string
  announcement_title :: string
  announcement_message :: string
  announcement_createdAt :: string

record AdminDashboardPage =
  stats :: Stats
  announcements :: "Announcement list"
  title :: string
  message :: string
  submitting :: bool
  announcement_editId :: "string option"

definition AdminDashboardPage_init :: AdminDashboardPage where
  "AdminDashboardPage_init =
     \<lparr>stats = \<lparr>totalUsers = Num 0, totalDepartments = Num 0, totalCourses = Num 0,
               totalAnnouncements = Num 0\<rparr>,
      announcements = [], title = [], message = [], submitting = False,
      announcement_editId = None\<rparr>"



definition fetchStats ::
  "Stats response promise \<Rightarrow> AdminDashboardPage \<Rightarrow> AdminDashboardPage \<times> effect list" where
  "fetchStats res s =
     (let call = Http (get_request ''https://forestryapi.onrender.com/admin/stats'');
          failed = (s, [call, Console_error ''Failed to fetch stats:''])
      in case res of
           Rejected \<Rightarrow> failed
         | Fulfilled r \<Rightarrow>
             (case json r of
                Rejected \<Rightarrow> failed
              | Fulfilled d \<Rightarrow> (s\<lparr>stats := d\<rparr>, [call])))"

text \<open>
  \<^verbatim>\<open>fetchAnnouncements\<close> of the admin dashboard. It never reads \<^verbatim>\<open>res.ok\<close>: whatever body
  parses is stored.
\<close>

definition fetchAnnouncements ::
  "Announcement list response promise \<Rightarrow> AdminDashboardPage \<Rightarrow>
   AdminDashboardPage \<times> effect list" where
  "fetchAnnouncements res s =
     (let call = Http (get_request ''https://forestryapi.onrender.com/announcements'');
          failed = (s, [call, Console_error ''Error fetching announcements''])
      in case res of
           Rejected \<Rightarrow> failed
         | Fulfilled r \<Rightarrow>
             (case json r of
                Rejected \<Rightarrow> failed
              | Fulfilled d \<Rightarrow> (s\<lparr>announcements := d\<rparr>, [call])))"

text \<open>
  \<^verbatim>\<open>handleSubmit\<close> of the admin dashboard; \<open>token\<close> is
  \<^verbatim>\<open>localStorage.getItem("adminToken")\<close>, which the template string renders as
  \<^verbatim>\<open>null\<close> when the key is absent.
\<close>

definition announcement_handleSubmit ::
  "string option \<Rightarrow> mutation_data response promise \<Rightarrow> AdminDashboardPage \<Rightarrow>
   AdminDashboardPage \<times> effect list" where
  "announcement_handleSubmit token res s =
     (if \<not> truthy (title s) \<or> \<not> truthy (message s)
      then (s, [Alert ''Fill in all fields.''])
      else
        let headers =
              [(''Content-Type'', ''application/json''),
               (''Authorization'',
                ''Bearer '' @ (case token of None \<Rightarrow> ''null'' | Some t \<Rightarrow> t))];
            create =
              (POST, ''https://forestryapi.onrender.com/announcements'',
               ''Announcement created'');
            (method', endpoint, success) =
              (case announcement_editId s of
                 None \<Rightarrow> create
               | Some i \<Rightarrow>
                   if truthy i
                   then (PUT, ''https://forestryapi.onrender.com/announcements/'' @ i,
                         ''Announcement updated'')
                   else create);
            call =
              Http \<lparr>req_method = method', req_url = endpoint, req_headers = headers,
                    req_body = Announcement_payload (title s) (message s)\<rparr>;
            failed = (s\<lparr>submitting := False\<rparr>, [call, Alert ''Server error''])
        in case res of
             Rejected \<Rightarrow> failed
           | Fulfilled r \<Rightarrow>
               (case json r of
                  Rejected \<Rightarrow> failed
                | Fulfilled d \<Rightarrow>
                    if ok r
                    then (s\<lparr>title := [], message := [], announcement_editId := None,
                            submitting := False\<rparr>,
                          [call, Alert success, Reload])
                    else (s\<lparr>submitting := False\<rparr>,
                          [call,
                           Alert (case error d of
                                    None \<Rightarrow> ''Failed to submit''
                                  | Some m \<Rightarrow> if truthy m then m else ''Failed to submit'')])))"

text \<open>
  \<^verbatim>\<open>handleDelete\<close> of the admin dashboard. The call passes \<^verbatim>\<open>{ method: "DELETE" }\<close> and
  nothing else, and the response is not looked at.
\<close>

definition announcement_handleDelete ::
  "string \<Rightarrow> bool \<Rightarrow> mutation_data response promise \<Rightarrow> AdminDashboardPage \<Rightarrow>
   AdminDashboardPage \<times> effect list" where
  "announcement_handleDelete i confirmed res s =
     (if \<not> confirmed then (s, [Confirm ''Are you sure?''])
      else
        let call =
              [Confirm ''Are you sure?'',
               Http \<lparr>req_method = DELETE,
                     req_url = ''https://forestryapi.onrender.com/announcements/'' @ i,
                     req_headers = [], req_body = No_payload\<rparr>]
        in case res of
             Rejected \<Rightarrow> (s, call @ [Alert ''Delete failed''])
           | Fulfilled r \<Rightarrow> (s, call @ [Alert ''Deleted'', Reload]))"

text \<open>
  The dashboard's callbacks. The two mount effects run in the order written: the token
  check, which navigates to the login route when \<^verbatim>\<open>adminToken\<close> is absent or empty, and
  the two fetches, which run either way and are not awaited: both requests go out before
  either console line. The \<^verbatim>\<open>Dialog\<close> is rendered with no \<^verbatim>\<open>open\<close> and
  no \<^verbatim>\<open>onOpenChange\<close>: opening and dismissing it run no code of the page, and the page has
  no cancel handler. After \<^verbatim>\<open>Reload\<close> the browser discards the state and mounts the page
  again.
\<close>

datatype dashboard_event =
  Mount_dashboard "string option" "Stats response promise"
    "Announcement list response promise"
| Open_dialog
| Dismiss_dialog
| Change_title string
| Change_message string
| Click_submit "string option" "mutation_data response promise"
| Click_pencil Announcement
| Click_trash string bool "mutation_data response promise"

fun dashboard_step ::
  "dashboard_event \<Rightarrow> AdminDashboardPage \<Rightarrow> AdminDashboardPage \<times> effect list" where
  "dashboard_step (Mount_dashboard token rs ra) s =
     (case fetchStats rs s of
        (s1, e1) \<Rightarrow>
          (case fetchAnnouncements ra s1 of
             (s2, e2) \<Rightarrow>
               (s2,
                (case token of
                   None \<Rightarrow> [Router_replace ''/login'']
                 | Some k \<Rightarrow> if truthy k then [] else [Router_replace ''/login'']) @
                requests_first (e1 @ e2))))"
| "dashboard_step Open_dialog s = (s, [])"
| "dashboard_step Dismiss_dialog s = (s, [])"
| "dashboard_step (Change_title v) s = (s\<lparr>title := v\<rparr>, [])"
| "dashboard_step (Change_message v) s = (s\<lparr>message := v\<rparr>, [])"
| "dashboard_step (Click_submit token res) s = announcement_handleSubmit token res s"
| "dashboard_step (Click_pencil a) s =
     (s\<lparr>title := announcement_title a, message := announcement_message a,
        announcement_editId := Some (announcement_id a)\<rparr>, [])"
| "dashboard_step (Click_trash i confirmed res) s = announcement_handleDelete i confirmed res s"

text \<open>The student dashboard keeps the announcements and a loading flag.\<close>

record StudentDashboard =
  student_announcements :: "Announcement list"
  student_loading :: bool

definition StudentDashboard_init :: StudentDashboard where
  "StudentDashboard_init = \<lparr>student_announcements = [], student_loading = True\<rparr>"

definition student_fetchAnnouncements ::
  "Announcement list response promise \<Rightarrow> StudentDashboard \<Rightarrow>
   StudentDashboard \<times> effect list" where
  "student_fetchAnnouncements res s =
     (let call = Http (get_request ''https://forestryapi.onrender.com/announcements'');
          failed = (s\<lparr>student_loading := False\<rparr>,
                    [call, Console_error ''Error fetching announcements:''])
      in case res of
           Rejected \<Rightarrow> failed
         | Fulfilled r \<Rightarrow>
             (case json r of
                Rejected \<Rightarrow> failed
              | Fulfilled d \<Rightarrow>
                  (s\<lparr>student_announcements := d, student_loading := False\<rparr>, [call])))"

text \<open>
  The mount effect of the student dashboard: without a \<^verbatim>\<open>studentToken\<close> it navigates to
  the login route and fetches nothing.
\<close>

definition student_mount ::
  "string option \<Rightarrow> Announcement list response promise \<Rightarrow> StudentDashboard \<Rightarrow>
   StudentDashboard \<times> effect list" where
  "student_mount token res s =
     (case token of
        None \<Rightarrow> (s, [Router_push ''/login''])
      | Some k \<Rightarrow>
          if truthy k then student_fetchAnnouncements res s
          else (s, [Router_push ''/login'']))"

section \<open>Example data\<close>

definition example_course :: Course where
  "example_course =
     \<lparr>course_id = ''c1'', course_courseCode = ''FOR101'',
      course_courseTitle = ''Silviculture'', course_creditUnits = Num 3,
      course_lecturer =
        Populated \<lparr>lecturer_id = ''l1'', lecturer_fullName = Some ''A. Bello'',
                   lecturer_email = None, lecturer_name = None\<rparr>,
      course_level = Raw_id ''NDI'',
      course_semester = ''First Semester'',
      course_department = Populated \<lparr>department_id = ''d1'', department_name = ''Forestry''\<rparr>\<rparr>"

text \<open>A draft of a new course with every field filled in.\<close>

definition example_new_draft :: AdminCoursesPage where
  "example_new_draft =
     AdminCoursesPage_init
       \<lparr>isModalOpen := True, courseCode := ''FOR101'', courseTitle := ''Silviculture'',
        creditUnits := Num 3, lecturer := ''l1'', level := ''NDI'',
        semester := ''First Semester'', department := ''d1''\<rparr>"

text \<open>A draft with the code and the title typed in and everything else as reset.\<close>

definition example_partial_draft :: AdminCoursesPage where
  "example_partial_draft =
     AdminCoursesPage_init
       \<lparr>isModalOpen := True, courseCode := ''FOR101'', courseTitle := ''Silviculture''\<rparr>"

definition example_announcement :: Announcement where
  "example_announcement =
     \<lparr>announcement_id = ''a1'', announcement_title = ''Exams'',
      announcement_message = ''Exams start on Monday.'',
      announcement_createdAt = ''2025-01-01T00:00:00.000Z''\<rparr>"

definition example_announcement_draft :: AdminDashboardPage where
  "example_announcement_draft =
     AdminDashboardPage_init\<lparr>title := ''Exams'', message := ''Exams start on Monday.''\<rparr>"

section \<open>Basic facts\<close>

lemma isNaN_iff: "isNaN n \<longleftrightarrow> n = NaN"
  by (cases n) simp_all

lemma handleSubmit_invalid:
  "courseCode s = [] \<or> courseTitle s = [] \<or> creditUnits s = NaN \<Longrightarrow>
   handleSubmit saved refetched s = (s, [Toast_error ''Please fill in all required fields.''])"
  by (auto simp: handleSubmit_def truthy_def)

lemma announcement_handleSubmit_invalid:
  "title t = [] \<or> message t = [] \<Longrightarrow>
   announcement_handleSubmit token res t = (t, [Alert ''Fill in all fields.''])"
  by (auto simp: announcement_handleSubmit_def truthy_def)

text \<open>The requests of a course submission that passes the handler's check.\<close>

lemma handleSubmit_requests:
  assumes "courseCode s \<noteq> []" and "courseTitle s \<noteq> []" and "creditUnits s \<noteq> NaN"
  shows "requests_of (snd (handleSubmit saved refetched s)) =
     \<lparr>req_method = (case editId s of None \<Rightarrow> POST | Some i \<Rightarrow> if i = [] then POST else PUT),
      req_url =
        (case editId s of
           None \<Rightarrow> ''https://forestryapi.onrender.com/courses''
         | Some i \<Rightarrow>
             if i = [] then ''https://forestryapi.onrender.com/courses''
             else ''https://forestryapi.onrender.com/courses/'' @ i),
      req_headers = [],
      req_body = Course_payload
        \<lparr>data_courseCode = courseCode s, data_courseTitle = courseTitle s,
         data_creditUnits = creditUnits s, data_lecturer = lecturer s,
         data_level = level s, data_semester = semester s,
         data_department = department s\<rparr>\<rparr> #
     (case saved of
        Rejected \<Rightarrow> []
      | Fulfilled u \<Rightarrow> [get_request ''https://forestryapi.onrender.com/courses''])"
  using assms
  by (cases saved; cases "editId s"; cases refetched)
     (simp_all add: handleSubmit_def fetchCourses_def truthy_def isNaN_iff Let_def)

text \<open>The state a successful course submission leaves.\<close>

lemma handleSubmit_success_state:
  assumes "courseCode s \<noteq> []" and "courseTitle s \<noteq> []" and "creditUnits s \<noteq> NaN"
  shows "fst (handleSubmit (Fulfilled u) refetched s) =
     s\<lparr>courses := (case refetched of Rejected \<Rightarrow> courses s | Fulfilled d \<Rightarrow> d),
       isModalOpen := False, loading := False, courseCode := [], courseTitle := [],
       creditUnits := Num 0, lecturer := [], level := [], semester := [], department := [],
       editId := None\<rparr>"
  using assms
  by (cases "editId s"; cases refetched)
     (simp_all add: handleSubmit_def fetchCourses_def closeModal_def resetForm_def
        truthy_def isNaN_iff Let_def)

text \<open>A course mutation that the backend rejects changes nothing and shows an error toast.\<close>

lemma handleSubmit_rejected:
  assumes "courseCode s \<noteq> []" and "courseTitle s \<noteq> []" and "creditUnits s \<noteq> NaN"
  shows "fst (handleSubmit Rejected refetched s) = s \<and>
     shown_to_user (snd (handleSubmit Rejected refetched s)) =
       [Toast_error ''Failed to save course.'']"
  using assms
  by (cases "editId s") (simp_all add: handleSubmit_def truthy_def isNaN_iff Let_def)

lemma handleDelete_rejected:
  "fst (handleDelete i True Rejected refetched s) = s \<and>
   shown_to_user (snd (handleDelete i True Rejected refetched s)) =
     [Toast_error ''Failed to delete course.'']"
  by (simp add: handleDelete_def)

text \<open>The request of an announcement submission that passes the handler's check.\<close>

lemma announcement_handleSubmit_requests:
  assumes "title t \<noteq> []" and "message t \<noteq> []"
  shows "requests_of (snd (announcement_handleSubmit token res t)) =
     [\<lparr>req_method =
         (case announcement_editId t of
            None \<Rightarrow> POST | Some i \<Rightarrow> if i = [] then POST else PUT),
       req_url =
         (case announcement_editId t of
            None \<Rightarrow> ''https://forestryapi.onrender.com/announcements''
          | Some i \<Rightarrow>
              if i = [] then ''https://forestryapi.onrender.com/announcements''
              else ''https://forestryapi.onrender.com/announcements/'' @ i),
       req_headers =
         [(''Content-Type'', ''application/json''),
          (''Authorization'', ''Bearer '' @ (case token of None \<Rightarrow> ''null'' | Some k \<Rightarrow> k))],
       req_body = Announcement_payload (title t) (message t)\<rparr>]"
proof -
  have valid: "\<not> (\<not> truthy (title t) \<or> \<not> truthy (message t))"
    using assms by (simp add: truthy_def)
  show ?thesis
  proof (cases res)
    case Rejected
    then show ?thesis
      using valid
      by (cases "announcement_editId t")
         (simp_all add: announcement_handleSubmit_def truthy_def Let_def)
  next
    case (Fulfilled r)
    then show ?thesis
      using valid
      by (cases "announcement_editId t"; cases "json r"; cases "ok r")
         (simp_all add: announcement_handleSubmit_def truthy_def Let_def)
  qed
qed

lemma announcement_handleSubmit_success:
  assumes "title t \<noteq> []" and "message t \<noteq> []"
  shows "fst (announcement_handleSubmit token (Fulfilled \<lparr>ok = True, json = Fulfilled d\<rparr>) t) =
       t\<lparr>title := [], message := [], announcement_editId := None, submitting := False\<rparr> \<and>
     last (snd (announcement_handleSubmit token (Fulfilled \<lparr>ok = True, json = Fulfilled d\<rparr>) t))
       = Reload"
  using assms
  by (cases "announcement_editId t")
     (simp_all add: announcement_handleSubmit_def truthy_def Let_def)

text \<open>
  A failed announcement submission (no response, a body that is not JSON, or an error
  status) keeps the announcements and the draft, and shows one alert.
\<close>

lemma announcement_handleSubmit_failed:
  assumes "title t \<noteq> []" and "message t \<noteq> []"
    and "res = Rejected \<or> res = Fulfilled \<lparr>ok = b, json = Rejected\<rparr> \<or>
         res = Fulfilled \<lparr>ok = False, json = Fulfilled d\<rparr>"
  shows "fst (announcement_handleSubmit token res t) = t\<lparr>submitting := False\<rparr> \<and>
     (\<exists>m. shown_to_user (snd (announcement_handleSubmit token res t)) = [Alert m] \<and>
          m \<in> {''Server error'', ''Failed to submit''} \<union> set_option (error d))"
  using assms
  by (cases "announcement_editId t"; cases "error d")
     (auto simp: announcement_handleSubmit_def truthy_def Let_def)

section \<open>Opening the form\<close>

text \<open>
  C1. \<^verbatim>\<open>openModal(course)\<close> fills the draft's lecturer, level and department with the raw
  identifier: the \<^verbatim>\<open>_id\<close> of an expanded object, and a bare string as it is. The draft's
  three fields are strings, so no expanded object can reach the submitted \<^verbatim>\<open>courseData\<close>.
\<close>

theorem openModal_normalizes_references:
  "(course_lecturer c = Populated lp \<longrightarrow> lecturer (openModal (Some c) s) = lecturer_id lp) \<and>
   (course_lecturer c = Raw_id i \<longrightarrow> lecturer (openModal (Some c) s) = i) \<and>
   (course_level c = Populated vp \<longrightarrow> level (openModal (Some c) s) = level_id vp) \<and>
   (course_level c = Raw_id j \<longrightarrow> level (openModal (Some c) s) = j) \<and>
   (course_department c = Populated dp \<longrightarrow>
      department (openModal (Some c) s) = department_id dp) \<and>
   (course_department c = Raw_id k \<longrightarrow> department (openModal (Some c) s) = k)"
  by (simp add: openModal_def)

theorem openModal_normalizes_references_witness:
  "lecturer (openModal (Some example_course) AdminCoursesPage_init) = ''l1'' \<and>
   level (openModal (Some example_course) AdminCoursesPage_init) = ''NDI'' \<and>
   department (openModal (Some example_course) AdminCoursesPage_init) = ''d1''"
  using openModal_normalizes_references
    [of example_course
        "\<lparr>lecturer_id = ''l1'', lecturer_fullName = Some ''A. Bello'',
          lecturer_email = None, lecturer_name = None\<rparr>"
        AdminCoursesPage_init "''unused''" "\<lparr>level_id = ''unused'', level_name = ''unused''\<rparr>"
        "''NDI''" "\<lparr>department_id = ''d1'', department_name = ''Forestry''\<rparr>" "''unused''"]
  by (simp add: example_course_def)

section \<open>Validation in the submit handlers\<close>

text \<open>
  C10. The course handler turns a submission away (the validation toast, no request, the
  state as it was) exactly when \<^verbatim>\<open>courseCode\<close> or \<^verbatim>\<open>courseTitle\<close> is the empty string or
  \<^verbatim>\<open>creditUnits\<close> is \<^verbatim>\<open>NaN\<close>. A draft with a code and a title, \<^verbatim>\<open>creditUnits\<close> 0 and empty
  lecturer, level, semester and department passes: its first request carries the zero and
  the four empty strings.
\<close>

theorem handleSubmit_validation_exact:
  "(handleSubmit saved refetched s = (s, [Toast_error ''Please fill in all required fields.'']))
     = (courseCode s = [] \<or> courseTitle s = [] \<or> creditUnits s = NaN) \<and>
   (requests_of (snd (handleSubmit saved refetched s)) = [])
     = (courseCode s = [] \<or> courseTitle s = [] \<or> creditUnits s = NaN) \<and>
   (courseCode s \<noteq> [] \<and> courseTitle s \<noteq> [] \<and> creditUnits s = Num 0 \<and>
    lecturer s = [] \<and> level s = [] \<and> semester s = [] \<and> department s = [] \<longrightarrow>
    map req_body (requests_of (snd (handleSubmit saved refetched s))) =
      Course_payload
        \<lparr>data_courseCode = courseCode s, data_courseTitle = courseTitle s,
         data_creditUnits = Num 0, data_lecturer = [], data_level = [],
         data_semester = [], data_department = []\<rparr> #
      (case saved of Rejected \<Rightarrow> [] | Fulfilled u \<Rightarrow> [No_payload]))"
  by (cases saved; cases "editId s"; cases refetched)
     (auto simp: handleSubmit_def fetchCourses_def get_request_def truthy_def isNaN_iff Let_def)

theorem handleSubmit_validation_exact_witness:
  "map req_body (requests_of (snd (handleSubmit Rejected Rejected example_partial_draft))) =
     [Course_payload
        \<lparr>data_courseCode = ''FOR101'', data_courseTitle = ''Silviculture'',
         data_creditUnits = Num 0, data_lecturer = [], data_level = [],
         data_semester = [], data_department = []\<rparr>]"
  using handleSubmit_validation_exact [of Rejected Rejected example_partial_draft]
  by (simp add: example_partial_draft_def AdminCoursesPage_init_def)

text \<open>
  C3, as the handlers have it. When \<^verbatim>\<open>courseCode\<close> or \<^verbatim>\<open>courseTitle\<close> is empty or
  \<^verbatim>\<open>creditUnits\<close> is \<^verbatim>\<open>NaN\<close>, the course handler sends nothing and shows the validation
  toast; when the title or the message is empty, the announcement handler sends nothing and
  shows the validation alert. The course handler does not look at lecturer, level, semester
  or department.
\<close>

theorem handlers_reject_invalid_drafts:
  "(courseCode s = [] \<or> courseTitle s = [] \<or> creditUnits s = NaN \<longrightarrow>
      handleSubmit saved refetched s =
        (s, [Toast_error ''Please fill in all required fields.'']) \<and>
      requests_of (snd (handleSubmit saved refetched s)) = []) \<and>
   (title t = [] \<or> message t = [] \<longrightarrow>
      announcement_handleSubmit token res t = (t, [Alert ''Fill in all fields.'']) \<and>
      requests_of (snd (announcement_handleSubmit token res t)) = [])"
  by (simp add: handleSubmit_invalid announcement_handleSubmit_invalid)

theorem handlers_reject_invalid_drafts_witness:
  "handleSubmit (Fulfilled ()) (Fulfilled []) AdminCoursesPage_init =
     (AdminCoursesPage_init, [Toast_error ''Please fill in all required fields.'']) \<and>
   announcement_handleSubmit None Rejected AdminDashboardPage_init =
     (AdminDashboardPage_init, [Alert ''Fill in all fields.''])"
  using handlers_reject_invalid_drafts
    [of AdminCoursesPage_init "Fulfilled ()" "Fulfilled []" AdminDashboardPage_init None Rejected]
  by (simp add: AdminCoursesPage_init_def AdminDashboardPage_init_def)

text \<open>
  C3 as stated fails: with a code and a title but no lecturer, level, semester or
  department, the handler sends the create request and shows the success toast.
\<close>

theorem empty_lecturer_is_submitted:
  "lecturer example_partial_draft = [] \<and>
   map req_method
     (requests_of (snd (handleSubmit (Fulfilled ()) (Fulfilled []) example_partial_draft))) =
     [POST, GET] \<and>
   shown_to_user (snd (handleSubmit (Fulfilled ()) (Fulfilled []) example_partial_draft)) =
     [Toast_success ''Course created.'']"
  by (simp add: example_partial_draft_def AdminCoursesPage_init_def handleSubmit_def
      fetchCourses_def get_request_def truthy_def Let_def)

section \<open>Submitting\<close>

text \<open>
  C5, as the handlers have it. A submission that passes the handler's check sends PUT to the
  record's endpoint when the editing identifier is a non-empty string, and POST to the
  collection when it is \<^verbatim>\<open>null\<close> or the empty string. When the save succeeds, the course
  page fetches the courses again, closes the modal and resets the draft; the dashboard
  clears title, message and identifier and reloads the page.
\<close>

theorem submit_dispatches_on_editId:
  "(courseCode s \<noteq> [] \<and> courseTitle s \<noteq> [] \<and> creditUnits s \<noteq> NaN \<longrightarrow>
      (editId s = Some i \<and> i \<noteq> [] \<longrightarrow>
         map req_method (requests_of (snd (handleSubmit saved refetched s))) =
           PUT # (case saved of Rejected \<Rightarrow> [] | Fulfilled u \<Rightarrow> [GET]) \<and>
         map req_url (requests_of (snd (handleSubmit saved refetched s))) =
           (''https://forestryapi.onrender.com/courses/'' @ i) #
           (case saved of
              Rejected \<Rightarrow> []
            | Fulfilled u \<Rightarrow> [''https://forestryapi.onrender.com/courses''])) \<and>
      (editId s = None \<or> editId s = Some [] \<longrightarrow>
         map req_method (requests_of (snd (handleSubmit saved refetched s))) =
           POST # (case saved of Rejected \<Rightarrow> [] | Fulfilled u \<Rightarrow> [GET]) \<and>
         map req_url (requests_of (snd (handleSubmit saved refetched s))) =
           ''https://forestryapi.onrender.com/courses'' #
           (case saved of
              Rejected \<Rightarrow> []
            | Fulfilled u \<Rightarrow> [''https://forestryapi.onrender.com/courses''])) \<and>
      fst (handleSubmit (Fulfilled v) refetched s) =
        s\<lparr>courses := (case refetched of Rejected \<Rightarrow> courses s | Fulfilled d \<Rightarrow> d),
          isModalOpen := False, loading := False, courseCode := [], courseTitle := [],
          creditUnits := Num 0, lecturer := [], level := [], semester := [],
          department := [], editId := None\<rparr>) \<and>
   (title t \<noteq> [] \<and> message t \<noteq> [] \<longrightarrow>
      (announcement_editId t = Some j \<and> j \<noteq> [] \<longrightarrow>
         map req_method (requests_of (snd (announcement_handleSubmit token res t))) = [PUT] \<and>
         map req_url (requests_of (snd (announcement_handleSubmit token res t))) =
           [''https://forestryapi.onrender.com/announcements/'' @ j]) \<and>
      (announcement_editId t = None \<or> announcement_editId t = Some [] \<longrightarrow>
         map req_method (requests_of (snd (announcement_handleSubmit token res t))) = [POST] \<and>
         map req_url (requests_of (snd (announcement_handleSubmit token res t))) =
           [''https://forestryapi.onrender.com/announcements'']) \<and>
      fst (announcement_handleSubmit token (Fulfilled \<lparr>ok = True, json = Fulfilled b\<rparr>) t) =
        t\<lparr>title := [], message := [], announcement_editId := None, submitting := False\<rparr> \<and>
      last (snd (announcement_handleSubmit token (Fulfilled \<lparr>ok = True, json = Fulfilled b\<rparr>) t))
        = Reload)"
  using handleSubmit_requests [of s saved refetched]
    handleSubmit_success_state [of s v refetched]
    announcement_handleSubmit_requests [of t token res]
    announcement_handleSubmit_success [of t token b]
  by (auto simp: get_request_def split: promise.splits)

theorem submit_dispatches_on_editId_witness:
  "map req_url
     (requests_of
        (snd (handleSubmit (Fulfilled ()) (Fulfilled [example_course])
                (openModal (Some example_course) AdminCoursesPage_init)))) =
     [''https://forestryapi.onrender.com/courses/c1'',
      ''https://forestryapi.onrender.com/courses''] \<and>
   map req_method
     (requests_of (snd (handleSubmit (Fulfilled ()) (Fulfilled []) example_new_draft))) =
     [POST, GET] \<and>
   courses
     (fst (handleSubmit (Fulfilled ()) (Fulfilled [example_course])
             (openModal (Some example_course) AdminCoursesPage_init))) = [example_course] \<and>
   map req_method
     (requests_of
        (snd (announcement_handleSubmit (Some ''tok'') Rejected
                (fst (dashboard_step (Click_pencil example_announcement)
                        AdminDashboardPage_init))))) = [PUT] \<and>
   map req_url
     (requests_of
        (snd (announcement_handleSubmit (Some ''tok'') Rejected example_announcement_draft))) =
     [''https://forestryapi.onrender.com/announcements''] \<and>
   title
     (fst (announcement_handleSubmit (Some ''tok'')
             (Fulfilled \<lparr>ok = True, json = Fulfilled \<lparr>error = None\<rparr>\<rparr>)
             example_announcement_draft)) = []"
  using
    submit_dispatches_on_editId
      [of "openModal (Some example_course) AdminCoursesPage_init" "''c1''" "Fulfilled ()"
          "Fulfilled [example_course]" "()"
          "fst (dashboard_step (Click_pencil example_announcement) AdminDashboardPage_init)"
          "''a1''" "Some ''tok''" Rejected "\<lparr>error = None\<rparr>"]
    submit_dispatches_on_editId
      [of example_new_draft "''unused''" "Fulfilled ()" "Fulfilled []" "()"
          example_announcement_draft "''unused''" "Some ''tok''" Rejected "\<lparr>error = None\<rparr>"]
  by (simp add: example_course_def example_new_draft_def example_announcement_def
      example_announcement_draft_def AdminCoursesPage_init_def AdminDashboardPage_init_def
      openModal_def)

text \<open>
  C5 as stated fails: a record whose \<^verbatim>\<open>_id\<close> is the empty string leaves a non-null
  editing identifier, and the submission is sent as a create request.
\<close>

theorem empty_editId_is_posted:
  "editId (openModal (Some (example_course\<lparr>course_id := []\<rparr>)) AdminCoursesPage_init) =
     Some [] \<and>
   map req_method
     (requests_of
        (snd (handleSubmit (Fulfilled ()) (Fulfilled [])
                (openModal (Some (example_course\<lparr>course_id := []\<rparr>)) AdminCoursesPage_init)))) =
     [POST, GET]"
  by (simp add: example_course_def AdminCoursesPage_init_def openModal_def handleSubmit_def
      fetchCourses_def get_request_def truthy_def Let_def)

text \<open>
  C6. A course submission with every required field non-empty, a credit value that is not
  \<^verbatim>\<open>NaN\<close> and a null editing identifier sends exactly one create request, whatever the
  backend answers. When the backend accepts it, the only other request is one fetch of the
  course collection, and the draft is reset: the strings empty, \<^verbatim>\<open>creditUnits\<close> 0 and
  \<^verbatim>\<open>editId\<close> null.
\<close>

theorem valid_create_submission:
  assumes "courseCode s \<noteq> []" and "courseTitle s \<noteq> []" and "lecturer s \<noteq> []"
    and "level s \<noteq> []" and "semester s \<noteq> []" and "department s \<noteq> []"
    and "creditUnits s \<noteq> NaN" and "editId s = None"
  shows "requests_of (snd (handleSubmit saved refetched s)) =
      \<lparr>req_method = POST, req_url = ''https://forestryapi.onrender.com/courses'',
       req_headers = [],
       req_body = Course_payload
         \<lparr>data_courseCode = courseCode s, data_courseTitle = courseTitle s,
          data_creditUnits = creditUnits s, data_lecturer = lecturer s,
          data_level = level s, data_semester = semester s,
          data_department = department s\<rparr>\<rparr> #
      (case saved of
         Rejected \<Rightarrow> []
       | Fulfilled u \<Rightarrow>
           [\<lparr>req_method = GET, req_url = ''https://forestryapi.onrender.com/courses'',
             req_headers = [], req_body = No_payload\<rparr>]) \<and>
    courseCode (fst (handleSubmit (Fulfilled v) refetched s)) = [] \<and>
    courseTitle (fst (handleSubmit (Fulfilled v) refetched s)) = [] \<and>
    creditUnits (fst (handleSubmit (Fulfilled v) refetched s)) = Num 0 \<and>
    lecturer (fst (handleSubmit (Fulfilled v) refetched s)) = [] \<and>
    level (fst (handleSubmit (Fulfilled v) refetched s)) = [] \<and>
    semester (fst (handleSubmit (Fulfilled v) refetched s)) = [] \<and>
    department (fst (handleSubmit (Fulfilled v) refetched s)) = [] \<and>
    editId (fst (handleSubmit (Fulfilled v) refetched s)) = None"
  using assms handleSubmit_requests [of s saved refetched]
    handleSubmit_success_state [of s v refetched]
  by (simp add: get_request_def split: promise.splits)

theorem valid_create_submission_witness:
  "map req_method
     (requests_of (snd (handleSubmit (Fulfilled ()) (Fulfilled []) example_new_draft))) =
     [POST, GET] \<and>
   courseCode (fst (handleSubmit (Fulfilled ()) (Fulfilled []) example_new_draft)) = [] \<and>
   creditUnits (fst (handleSubmit (Fulfilled ()) (Fulfilled []) example_new_draft)) = Num 0 \<and>
   editId (fst (handleSubmit (Fulfilled ()) (Fulfilled []) example_new_draft)) = None"
proof -
  have filled:
    "courseCode example_new_draft \<noteq> []" "courseTitle example_new_draft \<noteq> []"
    "lecturer example_new_draft \<noteq> []" "level example_new_draft \<noteq> []"
    "semester example_new_draft \<noteq> []" "department example_new_draft \<noteq> []"
    "creditUnits example_new_draft \<noteq> NaN" "editId example_new_draft = None"
    by (simp_all add: example_new_draft_def AdminCoursesPage_init_def)
  show ?thesis
    using valid_create_submission [OF filled, of "Fulfilled ()" "Fulfilled []" "()"]
    by simp
qed

section \<open>Deleting\<close>

text \<open>
  C7. When the user declines the prompt, neither page sends a request or changes its state.
  On both pages a request is sent only when the prompt was confirmed, and the prompt comes
  before the DELETE request.
\<close>

theorem declined_delete_sends_nothing:
  "handleDelete i False deleted refetched s =
     (s, [Confirm ''Are you sure you want to delete this course?'']) \<and>
   announcement_handleDelete j False res t = (t, [Confirm ''Are you sure?'']) \<and>
   (requests_of (snd (handleDelete i confirmed deleted refetched s)) \<noteq> [] \<longrightarrow> confirmed) \<and>
   (requests_of (snd (announcement_handleDelete j confirmed res t)) \<noteq> [] \<longrightarrow> confirmed) \<and>
   take 2 (snd (handleDelete i True deleted refetched s)) =
     [Confirm ''Are you sure you want to delete this course?'',
      Http \<lparr>req_method = DELETE, req_url = ''https://forestryapi.onrender.com/courses/'' @ i,
            req_headers = [], req_body = No_payload\<rparr>] \<and>
   take 2 (snd (announcement_handleDelete j True res t)) =
     [Confirm ''Are you sure?'',
      Http \<lparr>req_method = DELETE,
            req_url = ''https://forestryapi.onrender.com/announcements/'' @ j,
            req_headers = [], req_body = No_payload\<rparr>]"
  by (cases deleted; cases refetched; cases res; cases confirmed)
     (simp_all add: handleDelete_def announcement_handleDelete_def fetchCourses_def
        numeral_2_eq_2)

theorem declined_delete_sends_nothing_witness:
  "requests_of
     (snd (handleDelete ''c1'' False (Fulfilled ()) (Fulfilled []) AdminCoursesPage_init)) = [] \<and>
   requests_of
     (snd (announcement_handleDelete ''a1'' False Rejected AdminDashboardPage_init)) = [] \<and>
   map req_method
     (requests_of
        (snd (handleDelete ''c1'' True (Fulfilled ()) (Fulfilled []) AdminCoursesPage_init))) =
     [DELETE, GET]"
  using
    declined_delete_sends_nothing
      [of "''c1''" "Fulfilled ()" "Fulfilled []" AdminCoursesPage_init "''a1''" Rejected
          AdminDashboardPage_init True]
  by (simp add: handleDelete_def fetchCourses_def get_request_def)

text \<open>
  C2 at a failing input. The backend answers the DELETE of an announcement with an error
  status (here with the body \<^verbatim>\<open>{"error": "Unauthorized"}\<close>): \<^verbatim>\<open>fetch\<close> fulfils,
  \<^verbatim>\<open>handleDelete\<close> never reads \<^verbatim>\<open>res.ok\<close>, and the page alerts \<^verbatim>\<open>Deleted\<close> and reloads. The
  sibling handler \<^verbatim>\<open>handleSubmit\<close> reads \<^verbatim>\<open>res.ok\<close> and alerts the failure
  (\<open>announcement_handleSubmit_failed\<close>); the course handlers show their error toast
  (\<open>handleSubmit_rejected\<close>, \<open>handleDelete_rejected\<close>).
\<close>

theorem announcement_delete_error_status_alerts_deleted:
  "announcement_handleDelete ''a1'' True
     (Fulfilled \<lparr>ok = False, json = Fulfilled \<lparr>error = Some ''Unauthorized''\<rparr>\<rparr>)
     AdminDashboardPage_init =
   (AdminDashboardPage_init,
    [Confirm ''Are you sure?'',
     Http \<lparr>req_method = DELETE,
           req_url = ''https://forestryapi.onrender.com/announcements/a1'',
           req_headers = [], req_body = No_payload\<rparr>,
     Alert ''Deleted'', Reload])"
  by (simp add: announcement_handleDelete_def)

text \<open>
  C4 at a failing input. The DELETE request of an announcement carries no header at all,
  so no \<^verbatim>\<open>Authorization\<close> header, whatever the backend answers; the create and update
  requests of the same page carry the bearer token (\<open>announcement_handleSubmit_requests\<close>).
\<close>

theorem announcement_delete_sends_no_token:
  "map req_headers (requests_of (snd (announcement_handleDelete i True res t))) = [[]]"
  by (cases res) (simp_all add: announcement_handleDelete_def)

section \<open>Fetching the collections\<close>

text \<open>
  C8, as the pages have it. A fulfilled fetch of courses, lecturers or departments replaces
  the cached sequence with the response; a rejected one leaves it as it was and shows an
  error toast. A fetch of the announcements (admin and student dashboard) that answers with
  the collection replaces the cached sequence; one that is rejected, or whose body is not
  JSON, leaves it as it was, writes to the console and shows the user nothing.
\<close>

theorem fetch_replaces_or_keeps:
  "fetchCourses (Fulfilled cs) s =
     (s\<lparr>courses := cs, loading := False\<rparr>,
      [Http \<lparr>req_method = GET, req_url = ''https://forestryapi.onrender.com/courses'',
             req_headers = [], req_body = No_payload\<rparr>]) \<and>
   fst (fetchCourses Rejected s) = s\<lparr>loading := False\<rparr> \<and>
   shown_to_user (snd (fetchCourses Rejected s)) = [Toast_error ''Failed to fetch courses.''] \<and>
   fst (fetchLecturers (Fulfilled ls) s) = s\<lparr>lecturers := ls\<rparr> \<and>
   fst (fetchLecturers Rejected s) = s \<and>
   shown_to_user (snd (fetchLecturers Rejected s)) =
     [Toast_error ''Failed to fetch lecturers.''] \<and>
   fst (fetchDepartments (Fulfilled ds) s) = s\<lparr>departments := ds\<rparr> \<and>
   fst (fetchDepartments Rejected s) = s \<and>
   shown_to_user (snd (fetchDepartments Rejected s)) =
     [Toast_error ''Failed to fetch departments.''] \<and>
   fst (fetchAnnouncements (Fulfilled \<lparr>ok = True, json = Fulfilled as\<rparr>) t) =
     t\<lparr>announcements := as\<rparr> \<and>
   fst (fetchAnnouncements Rejected t) = t \<and>
   fst (fetchAnnouncements (Fulfilled \<lparr>ok = b, json = Rejected\<rparr>) t) = t \<and>
   snd (fetchAnnouncements Rejected t) =
     [Http \<lparr>req_method = GET, req_url = ''https://forestryapi.onrender.com/announcements'',
            req_headers = [], req_body = No_payload\<rparr>,
      Console_error ''Error fetching announcements''] \<and>
   snd (fetchAnnouncements (Fulfilled \<lparr>ok = b, json = Rejected\<rparr>) t) =
     snd (fetchAnnouncements Rejected t) \<and>
   fst (student_fetchAnnouncements (Fulfilled \<lparr>ok = True, json = Fulfilled as\<rparr>) w) =
     w\<lparr>student_announcements := as, student_loading := False\<rparr> \<and>
   fst (student_fetchAnnouncements Rejected w) = w\<lparr>student_loading := False\<rparr> \<and>
   fst (student_fetchAnnouncements (Fulfilled \<lparr>ok = b, json = Rejected\<rparr>) w) =
     w\<lparr>student_loading := False\<rparr> \<and>
   snd (student_fetchAnnouncements Rejected w) =
     [Http \<lparr>req_method = GET, req_url = ''https://forestryapi.onrender.com/announcements'',
            req_headers = [], req_body = No_payload\<rparr>,
      Console_error ''Error fetching announcements:''] \<and>
   snd (student_fetchAnnouncements (Fulfilled \<lparr>ok = b, json = Rejected\<rparr>) w) =
     snd (student_fetchAnnouncements Rejected w)"
  by (simp add: fetchCourses_def fetchLecturers_def fetchDepartments_def
      fetchAnnouncements_def student_fetchAnnouncements_def get_request_def)

theorem fetch_replaces_or_keeps_witness:
  "courses (fst (fetchCourses (Fulfilled [example_course]) AdminCoursesPage_init)) =
     [example_course] \<and>
   announcements
     (fst (fetchAnnouncements
             (Fulfilled \<lparr>ok = True, json = Fulfilled [example_announcement]\<rparr>)
             AdminDashboardPage_init)) = [example_announcement] \<and>
   student_announcements (fst (student_fetchAnnouncements Rejected StudentDashboard_init)) = []"
  using fetch_replaces_or_keeps
    [of "[example_course]" AdminCoursesPage_init "[]" "[]" "[example_announcement]"
        AdminDashboardPage_init True StudentDashboard_init]
  by (simp add: StudentDashboard_init_def)

text \<open>
  C8 as stated fails: when the fetch of the announcements is rejected, neither dashboard
  shows the user a notification.
\<close>

theorem announcement_fetch_failure_is_silent:
  "shown_to_user (snd (fetchAnnouncements Rejected AdminDashboardPage_init)) = [] \<and>
   shown_to_user (snd (student_fetchAnnouncements Rejected StudentDashboard_init)) = []"
  by (simp add: fetchAnnouncements_def student_fetchAnnouncements_def)

section \<open>The editing identifier\<close>














end
